theory Spec2Isabelle
  imports
    Main
    "HOL-Library.Char_ord"
    "HOL-Library.List_Lexorder"
    "HOL-Library.Multiset"
begin

section \<open>The deterministic serializer of kubeadm's configuration documents\<close>

text \<open>
  Go's \<^verbatim>\<open>[]byte\<close> and \<^verbatim>\<open>string\<close> are both sequences of bytes; a HOL \<open>char\<close> is one
  byte. With \<open>Char_ord\<close> and \<open>List_Lexorder\<close> the order on \<open>string\<close> is the byte-wise
  lexicographic one (a proper prefix is smaller), which is the order of Go's
  \<^verbatim>\<open>sort.Strings\<close> and of \<^verbatim>\<open><\<close> on Go strings.
\<close>

type_synonym bytes = string

text \<open>
  A value of Go's \<^verbatim>\<open>map[string][]byte\<close> is given by its entries, listed in the order in
  which one \<^verbatim>\<open>range\<close> over the map visits them. That order is not defined by the language
  and changes from run to run, so it is part of the input. The keys of a map are pairwise
  distinct: \<open>distinct (map fst content)\<close>.
\<close>

type_synonym kindmap = "(string \<times> bytes) list"

text \<open>
  Modelled from the spec: \<^verbatim>\<open>consistentOrderByteSlice\<close> of package \<^verbatim>\<open>config\<close> is not among
  the sources, only its test \<^verbatim>\<open>TestConsistentOrderByteSlice\<close> is
  (\<^verbatim>\<open>initconfiguration_test.go\<close>). The spec (4.4, Deterministic Serializer) gives the
  ordering rule: sort the entries by kind name using a pure lexicographic (byte-wise)
  string comparison; the test gives the type, \<^verbatim>\<open>map[string][]byte\<close> to \<^verbatim>\<open>[][]byte\<close>: the
  documents of the entries are returned in that order.
\<close>

definition consistentOrderByteSlice :: "kindmap \<Rightarrow> bytes list" where
  "consistentOrderByteSlice content = map snd (sort_key fst content)"

text \<open>The kinds and documents of \<^verbatim>\<open>TestConsistentOrderByteSlice\<close>.\<close>

definition aKind :: string where "aKind = ''Akind''"
definition aaKind :: string where "aaKind = ''Aakind''"
definition abKind :: string where "abKind = ''Abkind''"

definition aFile :: bytes where
  "aFile = [CHR 0x0A] @ ''kind: Akind'' @ [CHR 0x0A] @ ''apiVersion: foo.k8s.io/v1'' @ [CHR 0x0A]"
definition aaFile :: bytes where
  "aaFile = [CHR 0x0A] @ ''kind: Aakind'' @ [CHR 0x0A] @ ''apiVersion: foo.k8s.io/v1'' @ [CHR 0x0A]"
definition abFile :: bytes where
  "abFile = [CHR 0x0A] @ ''kind: Abkind'' @ [CHR 0x0A] @ ''apiVersion: foo.k8s.io/v1'' @ [CHR 0x0A]"

section \<open>The control-plane-prepare phase of \<^verbatim>\<open>kubeadm join\<close>\<close>

text \<open>
  The source is \<^verbatim>\<open>cmd/kubeadm/app/cmd/phases/join/controlplaneprepare.go\<close>. It builds a
  tree of workflow phases and defines the run function of each subphase. The run functions
  call into other packages; what they call, and with what arguments, is recorded in a trace,
  so that "this function calls nothing" is a statement about its result.
\<close>

subsection \<open>Errors\<close>

text \<open>
  Go's \<^verbatim>\<open>error\<close> values as far as the file builds them: \<^verbatim>\<open>errors.New(msg)\<close> and
  \<^verbatim>\<open>errors.Wrap(err, msg)\<close> of \<^verbatim>\<open>github.com/pkg/errors\<close>. A returned \<^verbatim>\<open>error\<close> is an
  \<open>error option\<close>, \<open>None\<close> for \<^verbatim>\<open>nil\<close>. A Go call returning \<^verbatim>\<open>(v, err)\<close> whose
  caller looks at \<^verbatim>\<open>v\<close> only when \<^verbatim>\<open>err == nil\<close> is an \<open>error + 'v\<close>.
\<close>

datatype error = errors_New string | errors_Wrap error string

text \<open>What a run function does: it returns an \<^verbatim>\<open>error\<close> (maybe \<^verbatim>\<open>nil\<close>) or panics.\<close>

datatype outcome = Returns "error option" | Panics

subsection \<open>The run context\<close>

text \<open>
  The declarations of \<^verbatim>\<open>JoinData\<close>, \<^verbatim>\<open>kubeadmapi.JoinConfiguration\<close> and of the types they
  mention are not among the sources; the model has the methods and the field that this file
  uses. The types the file only passes on are type parameters: \<open>'jcp\<close> for
  \<^verbatim>\<open>JoinControlPlane\<close>, \<open>'icfg\<close> for \<^verbatim>\<open>*kubeadmapi.InitConfiguration\<close>, \<open>'kcfg\<close> for
  \<^verbatim>\<open>*clientcmdapi.Config\<close> and \<open>'cli\<close> for \<^verbatim>\<open>clientset.Interface\<close>. A pointer that the file
  compares with \<^verbatim>\<open>nil\<close> or dereferences is an \<open>option\<close>.
\<close>

record 'jcp JoinConfiguration =
  ControlPlane :: "'jcp option"

text \<open>
  A \<^verbatim>\<open>JoinData\<close> value is given by what its methods return: \<^verbatim>\<open>Cfg()\<close>,
  \<^verbatim>\<open>CertificateKey()\<close>, \<^verbatim>\<open>InitCfg()\<close> and \<^verbatim>\<open>TLSBootstrapCfg()\<close>. Each call of a method
  is recorded in the trace.
\<close>

record ('jcp, 'icfg, 'kcfg) JoinData =
  Cfg :: "'jcp JoinConfiguration option"
  CertificateKey :: string
  InitCfg :: "error + 'icfg"
  TLSBootstrapCfg :: "error + 'kcfg"

text \<open>
  \<^verbatim>\<open>workflow.RunData\<close> is the empty interface: the runner hands any value to a run function.
  The type assertion \<^verbatim>\<open>c.(JoinData)\<close> succeeds on \<open>IsJoinData\<close> and fails on
  \<open>NotJoinData\<close>, which stands for every value (\<^verbatim>\<open>nil\<close> included) whose type does not
  implement \<^verbatim>\<open>JoinData\<close>.
\<close>

datatype ('jcp, 'icfg, 'kcfg) RunData =
    IsJoinData "('jcp, 'icfg, 'kcfg) JoinData"
  | NotJoinData

subsection \<open>The other packages\<close>

text \<open>The calls a run function makes, in the order it makes them.\<close>

datatype ('icfg, 'kcfg, 'cli) call =
    Cfg_call
  | CertificateKey_call
  | InitCfg_call
  | TLSBootstrapCfg_call
  | ToClientSet_call 'kcfg
  | DownloadCerts_call 'cli 'icfg string
  | CreatePKIAssets_call 'icfg
  | CreateJoinControlPlaneKubeConfigFiles_call string 'icfg
  | CreateInitStaticPodManifestFiles_call string 'icfg
  | klog_V1_Infoln string
  | fmt_Println string

text \<open>
  The constants and functions of the imported packages are not among the sources; they are
  the fields of a parameter. \<open>options_CfgPath\<close> is Go's \<^verbatim>\<open>options.CfgPath\<close>, and so on.
  \<^verbatim>\<open>kubeadmconstants.GetStaticPodDirectory()\<close> takes no argument; the field is its result.
\<close>

record ('icfg, 'kcfg, 'cli) deps =
  options_APIServerAdvertiseAddress :: string
  options_APIServerBindPort :: string
  options_CfgPath :: string
  options_ControlPlane :: string
  options_NodeName :: string
  options_TokenDiscovery :: string
  options_TokenDiscoveryCAHash :: string
  options_TokenDiscoverySkipCAHash :: string
  options_CertificateKey :: string
  kubeadmconstants_KubeadmCertsSecret :: string
  kubeadmconstants_KubernetesDir :: string
  kubeadmconstants_GetStaticPodDirectory :: string
  cmdutil_MacroCommandLongDescription :: string
  certsphase_CreatePKIAssets :: "'icfg \<Rightarrow> error option"
  kubeconfigphase_CreateJoinControlPlaneKubeConfigFiles :: "string \<Rightarrow> 'icfg \<Rightarrow> error option"
  controlplane_CreateInitStaticPodManifestFiles :: "string \<Rightarrow> 'icfg \<Rightarrow> error option"
  copycerts_DownloadCerts :: "'cli \<Rightarrow> 'icfg \<Rightarrow> string \<Rightarrow> error option"
  kubeconfigutil_ToClientSet :: "'kcfg \<Rightarrow> error + 'cli"

text \<open>
  The collaborators of the run functions: loading the init configuration, the bootstrap
  client (its credentials and the client built from them), the download of the
  certificates, and the generators of certificates, kubeconfig files and manifests. Reading
  the join configuration or the certificate key off the context and printing are not.
\<close>

fun collaborator :: "('icfg, 'kcfg, 'cli) call \<Rightarrow> bool" where
  "collaborator Cfg_call = False"
| "collaborator CertificateKey_call = False"
| "collaborator (klog_V1_Infoln _) = False"
| "collaborator (fmt_Println _) = False"
| "collaborator _ = True"

subsection \<open>The run functions\<close>

type_synonym ('jcp, 'icfg, 'kcfg, 'cli) runfn =
  "('icfg, 'kcfg, 'cli) deps \<Rightarrow> ('jcp, 'icfg, 'kcfg) RunData
    \<Rightarrow> outcome \<times> ('icfg, 'kcfg, 'cli) call list"

definition bootstrapClient ::
  "('icfg, 'kcfg, 'cli) deps \<Rightarrow> ('jcp, 'icfg, 'kcfg) JoinData
    \<Rightarrow> (error + 'cli) \<times> ('icfg, 'kcfg, 'cli) call list" where
  "bootstrapClient env data =
     (case TLSBootstrapCfg data of
        Inl err \<Rightarrow>
          (Inl (errors_Wrap err ''unable to access the cluster''), [TLSBootstrapCfg_call])
      | Inr tlsBootstrapCfg \<Rightarrow>
          (case kubeconfigutil_ToClientSet env tlsBootstrapCfg of
             Inl err \<Rightarrow>
               (Inl (errors_Wrap err ''unable to access the cluster''),
                [TLSBootstrapCfg_call, ToClientSet_call tlsBootstrapCfg])
           | Inr client \<Rightarrow>
               (Inr client, [TLSBootstrapCfg_call, ToClientSet_call tlsBootstrapCfg])))"

definition runControlPlanePrepareManifestsSubphase :: "('jcp, 'icfg, 'kcfg, 'cli) runfn" where
  "runControlPlanePrepareManifestsSubphase env c =
     (case c of
        NotJoinData \<Rightarrow>
          (Returns (Some (errors_New
             ''control-plane-prepare phase invoked with an invalid data struct'')), [])
      | IsJoinData data \<Rightarrow>
          (case Cfg data of
             None \<Rightarrow> (Panics, [Cfg_call])
           | Some jcfg \<Rightarrow>
               if ControlPlane jcfg = None then (Returns None, [Cfg_call])
               else
                 (case InitCfg data of
                    Inl err \<Rightarrow> (Returns (Some err), [Cfg_call, InitCfg_call])
                  | Inr cfg \<Rightarrow>
                      (Returns (controlplane_CreateInitStaticPodManifestFiles env
                         (kubeadmconstants_GetStaticPodDirectory env) cfg),
                       [Cfg_call, InitCfg_call,
                        CreateInitStaticPodManifestFiles_call
                          (kubeadmconstants_GetStaticPodDirectory env) cfg]))))"

definition runControlPlanePrepareDownloadCertsPhaseLocal ::
  "('jcp, 'icfg, 'kcfg, 'cli) runfn" where
  "runControlPlanePrepareDownloadCertsPhaseLocal env c =
     (case c of
        NotJoinData \<Rightarrow>
          (Returns (Some (errors_New
             ''download-certs phase invoked with an invalid data struct'')), [])
      | IsJoinData data \<Rightarrow>
          (case Cfg data of
             None \<Rightarrow> (Panics, [Cfg_call])
           | Some jcfg \<Rightarrow>
               if ControlPlane jcfg = None then
                 (Returns None,
                  [Cfg_call, klog_V1_Infoln ''[download-certs] Skipping certs download''])
               else if length (CertificateKey data) = 0 then
                 (Returns None,
                  [Cfg_call, CertificateKey_call,
                   klog_V1_Infoln ''[download-certs] Skipping certs download''])
               else
                 (case InitCfg data of
                    Inl err \<Rightarrow>
                      (Returns (Some err), [Cfg_call, CertificateKey_call, InitCfg_call])
                  | Inr cfg \<Rightarrow>
                      (case bootstrapClient env data of
                         (Inl err, t) \<Rightarrow>
                           (Returns (Some err),
                            [Cfg_call, CertificateKey_call, InitCfg_call] @ t)
                       | (Inr client, t) \<Rightarrow>
                           (case copycerts_DownloadCerts env client cfg (CertificateKey data) of
                              Some err \<Rightarrow>
                                (Returns (Some (errors_Wrap err ''error downloading certs'')),
                                 [Cfg_call, CertificateKey_call, InitCfg_call] @ t @
                                 [CertificateKey_call,
                                  DownloadCerts_call client cfg (CertificateKey data)])
                            | None \<Rightarrow>
                                (Returns None,
                                 [Cfg_call, CertificateKey_call, InitCfg_call] @ t @
                                 [CertificateKey_call,
                                  DownloadCerts_call client cfg (CertificateKey data)]))))))"

definition runControlPlanePrepareCertsPhaseLocal :: "('jcp, 'icfg, 'kcfg, 'cli) runfn" where
  "runControlPlanePrepareCertsPhaseLocal env c =
     (case c of
        NotJoinData \<Rightarrow>
          (Returns (Some (errors_New
             ''control-plane-prepare phase invoked with an invalid data struct'')), [])
      | IsJoinData data \<Rightarrow>
          (case Cfg data of
             None \<Rightarrow> (Panics, [Cfg_call])
           | Some jcfg \<Rightarrow>
               if ControlPlane jcfg = None then (Returns None, [Cfg_call])
               else
                 (case InitCfg data of
                    Inl err \<Rightarrow> (Returns (Some err), [Cfg_call, InitCfg_call])
                  | Inr cfg \<Rightarrow>
                      (Returns (certsphase_CreatePKIAssets env cfg),
                       [Cfg_call, InitCfg_call, CreatePKIAssets_call cfg]))))"

definition runControlPlanePrepareKubeconfigPhaseLocal ::
  "('jcp, 'icfg, 'kcfg, 'cli) runfn" where
  "runControlPlanePrepareKubeconfigPhaseLocal env c =
     (case c of
        NotJoinData \<Rightarrow>
          (Returns (Some (errors_New
             ''control-plane-prepare phase invoked with an invalid data struct'')), [])
      | IsJoinData data \<Rightarrow>
          (case Cfg data of
             None \<Rightarrow> (Panics, [Cfg_call])
           | Some jcfg \<Rightarrow>
               if ControlPlane jcfg = None then (Returns None, [Cfg_call])
               else
                 (case InitCfg data of
                    Inl err \<Rightarrow> (Returns (Some err), [Cfg_call, InitCfg_call])
                  | Inr cfg \<Rightarrow>
                      (case kubeconfigphase_CreateJoinControlPlaneKubeConfigFiles env
                              (kubeadmconstants_KubernetesDir env) cfg of
                         Some err \<Rightarrow>
                           (Returns (Some (errors_Wrap err ''error generating kubeconfig files'')),
                            [Cfg_call, InitCfg_call,
                             fmt_Println ''[control-plane-prepare] Generating kubeconfig files'',
                             CreateJoinControlPlaneKubeConfigFiles_call
                               (kubeadmconstants_KubernetesDir env) cfg])
                       | None \<Rightarrow>
                           (Returns None,
                            [Cfg_call, InitCfg_call,
                             fmt_Println ''[control-plane-prepare] Generating kubeconfig files'',
                             CreateJoinControlPlaneKubeConfigFiles_call
                               (kubeadmconstants_KubernetesDir env) cfg])))))"

subsection \<open>The phase tree\<close>

text \<open>
  The declaration of \<^verbatim>\<open>workflow.Phase\<close> is not among the sources; the model has the fields
  that this file sets, in this order: \<^verbatim>\<open>Name\<close>, \<^verbatim>\<open>Short\<close>, \<^verbatim>\<open>Long\<close>, \<^verbatim>\<open>Phases\<close> (the
  children), \<^verbatim>\<open>Run\<close>, \<^verbatim>\<open>InheritFlags\<close> and \<^verbatim>\<open>RunAllSiblings\<close>. A field that a composite
  literal leaves out has Go's zero value: the empty string, the empty list, \<open>None\<close> for a
  \<^verbatim>\<open>nil\<close> function, \<open>False\<close>.
\<close>

datatype ('jcp, 'icfg, 'kcfg, 'cli) Phase = Phase
  (Name: string)
  (Short: string)
  (Long: string)
  (Phases: "('jcp, 'icfg, 'kcfg, 'cli) Phase list")
  (Run: "('jcp, 'icfg, 'kcfg, 'cli) runfn option")
  (InheritFlags: "string list")
  (RunAllSiblings: bool)

definition getControlPlanePreparePhaseFlags :: "('icfg, 'kcfg, 'cli) deps \<Rightarrow> string list" where
  "getControlPlanePreparePhaseFlags env =
     [options_APIServerAdvertiseAddress env,
      options_APIServerBindPort env,
      options_CfgPath env,
      options_ControlPlane env,
      options_NodeName env,
      options_TokenDiscovery env,
      options_TokenDiscoveryCAHash env,
      options_TokenDiscoverySkipCAHash env,
      options_CertificateKey env]"

definition newControlPlanePrepareDownloadCertsSubphase ::
  "('icfg, 'kcfg, 'cli) deps \<Rightarrow> ('jcp, 'icfg, 'kcfg, 'cli) Phase" where
  "newControlPlanePrepareDownloadCertsSubphase env =
     Phase ''download-certs''
       (''Download certificates from '' @ kubeadmconstants_KubeadmCertsSecret env)
       (cmdutil_MacroCommandLongDescription env)
       []
       (Some runControlPlanePrepareDownloadCertsPhaseLocal)
       [options_CfgPath env, options_CertificateKey env]
       False"

definition newControlPlanePrepareCertsSubphase ::
  "('icfg, 'kcfg, 'cli) deps \<Rightarrow> ('jcp, 'icfg, 'kcfg, 'cli) Phase" where
  "newControlPlanePrepareCertsSubphase env =
     Phase ''certs''
       ''Generates the certificates for the new control plane components''
       []
       []
       (Some runControlPlanePrepareCertsPhaseLocal)
       (getControlPlanePreparePhaseFlags env)
       False"

definition newControlPlanePrepareKubeconfigSubphase ::
  "('icfg, 'kcfg, 'cli) deps \<Rightarrow> ('jcp, 'icfg, 'kcfg, 'cli) Phase" where
  "newControlPlanePrepareKubeconfigSubphase env =
     Phase ''kubeconfig''
       ''Generates the kubeconfig for the new control plane components''
       []
       []
       (Some runControlPlanePrepareKubeconfigPhaseLocal)
       (getControlPlanePreparePhaseFlags env)
       False"

definition newControlPlanePrepareManifestsSubphases ::
  "('icfg, 'kcfg, 'cli) deps \<Rightarrow> ('jcp, 'icfg, 'kcfg, 'cli) Phase" where
  "newControlPlanePrepareManifestsSubphases env =
     Phase ''manifests''
       ''Generates the manifests for the new control plane components''
       []
       []
       (Some runControlPlanePrepareManifestsSubphase)
       (getControlPlanePreparePhaseFlags env)
       False"

definition NewControlPlanePreparePhase ::
  "('icfg, 'kcfg, 'cli) deps \<Rightarrow> ('jcp, 'icfg, 'kcfg, 'cli) Phase" where
  "NewControlPlanePreparePhase env =
     Phase ''control-plane-prepare''
       ''Prepares the machine for serving a control plane.''
       []
       [Phase ''all''
          ''Prepares the machine for serving a control plane.''
          []
          []
          None
          (getControlPlanePreparePhaseFlags env)
          True,
        newControlPlanePrepareDownloadCertsSubphase env,
        newControlPlanePrepareCertsSubphase env,
        newControlPlanePrepareKubeconfigSubphase env,
        newControlPlanePrepareManifestsSubphases env]
       None
       []
       False"

text \<open>The nodes of a phase tree, the root first, every subtree in declared order.\<close>

fun phase_nodes ::
  "('jcp, 'icfg, 'kcfg, 'cli) Phase \<Rightarrow> ('jcp, 'icfg, 'kcfg, 'cli) Phase list" where
  "phase_nodes (Phase n s l ps r fs a) = Phase n s l ps r fs a # concat (map phase_nodes ps)"

text \<open>The run functions of the four subphases, in the order of the tree.\<close>

definition subphase_run_functions :: "('jcp, 'icfg, 'kcfg, 'cli) runfn list" where
  "subphase_run_functions =
     [runControlPlanePrepareDownloadCertsPhaseLocal,
      runControlPlanePrepareCertsPhaseLocal,
      runControlPlanePrepareKubeconfigPhaseLocal,
      runControlPlanePrepareManifestsSubphase]"

subsection \<open>Concrete inputs\<close>

text \<open>
  An environment for evaluation: the flag names are pairwise different, every collaborator
  succeeds, and the types that are only passed on are \<open>unit\<close>.
\<close>

definition example_deps :: "(unit, unit, unit) deps" where
  "example_deps = \<lparr>
     options_APIServerAdvertiseAddress = ''apiserver-advertise-address'',
     options_APIServerBindPort = ''apiserver-bind-port'',
     options_CfgPath = ''config'',
     options_ControlPlane = ''experimental-control-plane'',
     options_NodeName = ''node-name'',
     options_TokenDiscovery = ''discovery-token'',
     options_TokenDiscoveryCAHash = ''discovery-token-ca-cert-hash'',
     options_TokenDiscoverySkipCAHash = ''discovery-token-unsafe-skip-ca-verification'',
     options_CertificateKey = ''certificate-key'',
     kubeadmconstants_KubeadmCertsSecret = ''kubeadm-certs'',
     kubeadmconstants_KubernetesDir = ''/etc/kubernetes'',
     kubeadmconstants_GetStaticPodDirectory = ''/etc/kubernetes/manifests'',
     cmdutil_MacroCommandLongDescription = [],
     certsphase_CreatePKIAssets = (\<lambda>cfg. None),
     kubeconfigphase_CreateJoinControlPlaneKubeConfigFiles = (\<lambda>dir cfg. None),
     controlplane_CreateInitStaticPodManifestFiles = (\<lambda>dir cfg. None),
     copycerts_DownloadCerts = (\<lambda>client cfg key. None),
     kubeconfigutil_ToClientSet = (\<lambda>kcfg. Inr ())
   \<rparr>"

text \<open>A join of a worker node, and a join of a control-plane node without a certificate key.\<close>

definition worker_join :: "(unit, unit, unit) JoinData" where
  "worker_join = \<lparr>
     Cfg = Some \<lparr>ControlPlane = None\<rparr>,
     CertificateKey = ''0123456789abcdef'',
     InitCfg = Inr (),
     TLSBootstrapCfg = Inr ()
   \<rparr>"

definition control_plane_join_without_key :: "(unit, unit, unit) JoinData" where
  "control_plane_join_without_key = \<lparr>
     Cfg = Some \<lparr>ControlPlane = Some ()\<rparr>,
     CertificateKey = [],
     InitCfg = Inr (),
     TLSBootstrapCfg = Inr ()
   \<rparr>"

section \<open>Properties of the serializer\<close>

lemma sort_key_fst_keys:
  assumes "distinct (map fst content)"
  shows "map fst (sort_key fst content) = sorted_list_of_set (fst ` set content)"
proof -
  have "mset (map fst (sort_key fst content)) = mset (map fst content)"
    by simp
  then have "distinct (map fst (sort_key fst content))"
    using assms by (metis mset_eq_imp_distinct_iff)
  moreover have "sorted (map fst (sort_key fst content))"
    by (rule sorted_sort_key)
  moreover have "set (map fst (sort_key fst content)) = fst ` set content"
    by simp
  ultimately show ?thesis
    by (metis List.finite_set finite_imageI sorted_list_of_set.idem_if_sorted_distinct)
qed

lemma snd_eq_lookup:
  assumes "distinct (map fst content)" and "set ents \<subseteq> set content"
  shows "map snd ents = map (\<lambda>k. the (map_of content k)) (map fst ents)"
  using assms(2)
proof (induction ents)
  case Nil
  show ?case by simp
next
  case (Cons e ents)
  obtain k v where e: "e = (k, v)" by (cases e)
  with Cons.prems have "(k, v) \<in> set content" by simp
  with assms(1) have "map_of content k = Some v" by simp
  with Cons e show ?case by simp
qed

lemma consistentOrderByteSlice_lookup:
  assumes "distinct (map fst content)"
  shows "consistentOrderByteSlice content =
    map (\<lambda>k. the (map_of content k)) (sorted_list_of_set (fst ` set content))"
proof -
  have "map snd (sort_key fst content) =
      map (\<lambda>k. the (map_of content k)) (map fst (sort_key fst content))"
    by (rule snd_eq_lookup [OF assms]) simp
  with sort_key_fst_keys [OF assms] show ?thesis
    by (simp add: consistentOrderByteSlice_def)
qed



text \<open>
  Claim C1. For every map from kind name to document (entries with pairwise distinct
  keys, in any iteration order), the serializer returns the documents in the byte-wise
  lexicographic order of their kind names: the result is the list of the documents looked
  up at the sorted list of the keys. Two maps with the same key-value pairs give the same
  result, whatever the order of their entries. In particular a map with exactly the kinds
  \<^verbatim>\<open>Akind\<close>, \<^verbatim>\<open>Aakind\<close> and \<^verbatim>\<open>Abkind\<close> gives the documents of \<^verbatim>\<open>Aakind\<close>, \<^verbatim>\<open>Abkind\<close>,
  \<^verbatim>\<open>Akind\<close>, in this order.
\<close>

theorem consistentOrderByteSlice_deterministic:
  assumes "distinct (map fst content)" and "distinct (map fst content')"
    and "set content = set content'"
  shows "consistentOrderByteSlice content = consistentOrderByteSlice content' \<and>
    consistentOrderByteSlice content =
      map (\<lambda>k. the (map_of content k)) (sorted_list_of_set (fst ` set content)) \<and>
    (set content = {(aKind, a), (aaKind, aa), (abKind, ab)} \<longrightarrow>
      consistentOrderByteSlice content = [aa, ab, a])"
proof (intro conjI impI)
  have inj: "inj_on fst (set content)"
    using assms(1) by (simp add: distinct_map)
  have dist: "distinct content" "distinct content'"
    using assms(1,2) by (simp_all add: distinct_map)
  with assms(3) have ms: "mset content = mset content'"
    by (simp add: set_eq_iff_mset_eq_distinct)
  show "consistentOrderByteSlice content = consistentOrderByteSlice content'"
    unfolding consistentOrderByteSlice_def
    using sort_key_eq_sort_key [OF ms inj] by simp
  show "consistentOrderByteSlice content =
      map (\<lambda>k. the (map_of content k)) (sorted_list_of_set (fst ` set content))"
    by (rule consistentOrderByteSlice_lookup [OF assms(1)])
  assume three: "set content = {(aKind, a), (aaKind, aa), (abKind, ab)}"
  let ?ys = "[(aaKind, aa), (abKind, ab), (aKind, a)]"
  have "distinct ?ys"
    by (simp add: aKind_def aaKind_def abKind_def)
  with dist(1) three have m3: "mset content = mset ?ys"
    by (subst set_eq_iff_mset_eq_distinct [symmetric]) auto
  have "sorted (map fst ?ys)"
    by (simp add: aKind_def aaKind_def abKind_def)
  with m3 inj have "sort_key fst content = ?ys"
    by (rule sort_key_inj_key_eq)
  then show "consistentOrderByteSlice content = [aa, ab, a]"
    by (simp add: consistentOrderByteSlice_def)
qed

text \<open>
  The theorem at two of the maps of \<^verbatim>\<open>TestConsistentOrderByteSlice\<close>, which hold the same
  entries in different orders.
\<close>

theorem consistentOrderByteSlice_deterministic_witness:
  "distinct (map fst [(aKind, aFile), (aaKind, aaFile), (abKind, abFile)]) \<and>
   distinct (map fst [(abKind, abFile), (aKind, aFile), (aaKind, aaFile)]) \<and>
   set [(aKind, aFile), (aaKind, aaFile), (abKind, abFile)] =
     set [(abKind, abFile), (aKind, aFile), (aaKind, aaFile)] \<and>
   set [(aKind, aFile), (aaKind, aaFile), (abKind, abFile)] =
     {(aKind, aFile), (aaKind, aaFile), (abKind, abFile)} \<and>
   consistentOrderByteSlice [(aKind, aFile), (aaKind, aaFile), (abKind, abFile)] =
     consistentOrderByteSlice [(abKind, abFile), (aKind, aFile), (aaKind, aaFile)] \<and>
   consistentOrderByteSlice [(aKind, aFile), (aaKind, aaFile), (abKind, abFile)] =
     [aaFile, abFile, aFile]"
proof -
  let ?c = "[(aKind, aFile), (aaKind, aaFile), (abKind, abFile)]"
  let ?c' = "[(abKind, abFile), (aKind, aFile), (aaKind, aaFile)]"
  have d: "distinct (map fst ?c)" and d': "distinct (map fst ?c')"
    by (simp_all add: aKind_def aaKind_def abKind_def)
  have s: "set ?c = set ?c'"
    by auto
  have t: "set ?c = {(aKind, aFile), (aaKind, aaFile), (abKind, abFile)}"
    by simp
  from consistentOrderByteSlice_deterministic [OF d d' s, of aFile aaFile abFile] d d' s t
  show ?thesis by blast
qed

text \<open>The six cases of \<^verbatim>\<open>TestConsistentOrderByteSlice\<close>, evaluated.\<close>

lemma TestConsistentOrderByteSlice:
  "consistentOrderByteSlice [(aKind, aFile), (aaKind, aaFile), (abKind, abFile)] = [aaFile, abFile, aFile]"
  "consistentOrderByteSlice [(aKind, aFile), (abKind, abFile), (aaKind, aaFile)] = [aaFile, abFile, aFile]"
  "consistentOrderByteSlice [(aaKind, aaFile), (aKind, aFile), (abKind, abFile)] = [aaFile, abFile, aFile]"
  "consistentOrderByteSlice [(aaKind, aaFile), (abKind, abFile), (aKind, aFile)] = [aaFile, abFile, aFile]"
  "consistentOrderByteSlice [(abKind, abFile), (aKind, aFile), (aaKind, aaFile)] = [aaFile, abFile, aFile]"
  "consistentOrderByteSlice [(abKind, abFile), (aaKind, aaFile), (aKind, aFile)] = [aaFile, abFile, aFile]"
  by (simp_all add: consistentOrderByteSlice_def aKind_def aaKind_def abKind_def)

section \<open>Properties of the control-plane-prepare phase\<close>

lemmas run_defs =
  runControlPlanePrepareDownloadCertsPhaseLocal_def
  runControlPlanePrepareCertsPhaseLocal_def
  runControlPlanePrepareKubeconfigPhaseLocal_def
  runControlPlanePrepareManifestsSubphase_def

lemmas subphase_defs =
  newControlPlanePrepareDownloadCertsSubphase_def
  newControlPlanePrepareCertsSubphase_def
  newControlPlanePrepareKubeconfigSubphase_def
  newControlPlanePrepareManifestsSubphases_def

subsection \<open>The run functions\<close>

text \<open>
  Claim C5. When the run context is a \<^verbatim>\<open>JoinData\<close> whose \<^verbatim>\<open>Cfg().ControlPlane\<close> is
  \<^verbatim>\<open>nil\<close>, each of the four subphase run functions (certs, kubeconfig, manifests,
  download-certs) returns \<^verbatim>\<open>nil\<close> and calls no collaborator: the only calls are the read
  of the join configuration and, in download-certs, the log line that says it skips.
\<close>

theorem not_control_plane_is_skipped:
  assumes "Cfg data = Some jcfg" and "ControlPlane jcfg = None"
  shows "runControlPlanePrepareCertsPhaseLocal env (IsJoinData data) = (Returns None, [Cfg_call]) \<and>
    runControlPlanePrepareKubeconfigPhaseLocal env (IsJoinData data) = (Returns None, [Cfg_call]) \<and>
    runControlPlanePrepareManifestsSubphase env (IsJoinData data) = (Returns None, [Cfg_call]) \<and>
    runControlPlanePrepareDownloadCertsPhaseLocal env (IsJoinData data) =
      (Returns None, [Cfg_call, klog_V1_Infoln ''[download-certs] Skipping certs download'']) \<and>
    (\<forall>run \<in> set subphase_run_functions.
       fst (run env (IsJoinData data)) = Returns None \<and>
       filter collaborator (snd (run env (IsJoinData data))) = [])"
  using assms by (simp add: run_defs subphase_run_functions_def)

text \<open>The theorem at the join of a worker node.\<close>

theorem not_control_plane_is_skipped_witness:
  "Cfg worker_join = Some \<lparr>ControlPlane = None\<rparr> \<and>
   ControlPlane \<lparr>ControlPlane = None :: unit option\<rparr> = None \<and>
   runControlPlanePrepareCertsPhaseLocal example_deps (IsJoinData worker_join) =
     (Returns None, [Cfg_call]) \<and>
   runControlPlanePrepareKubeconfigPhaseLocal example_deps (IsJoinData worker_join) =
     (Returns None, [Cfg_call]) \<and>
   runControlPlanePrepareManifestsSubphase example_deps (IsJoinData worker_join) =
     (Returns None, [Cfg_call]) \<and>
   runControlPlanePrepareDownloadCertsPhaseLocal example_deps (IsJoinData worker_join) =
     (Returns None, [Cfg_call, klog_V1_Infoln ''[download-certs] Skipping certs download''])"
proof -
  have c: "Cfg worker_join = Some \<lparr>ControlPlane = None\<rparr>"
    by (simp add: worker_join_def)
  have n: "ControlPlane \<lparr>ControlPlane = None :: unit option\<rparr> = None"
    by simp
  from not_control_plane_is_skipped [OF c n, of example_deps] c n
  show ?thesis by simp
qed

text \<open>
  Claim C6. When the run context does not implement \<^verbatim>\<open>JoinData\<close> (the type assertion
  fails), each of the four subphase run functions returns a non-nil error that names the
  invalid data struct, and does nothing else: its trace is empty.
\<close>

theorem invalid_data_struct_fails_fast:
  "runControlPlanePrepareDownloadCertsPhaseLocal env NotJoinData =
     (Returns (Some (errors_New ''download-certs phase invoked with an invalid data struct'')), []) \<and>
   runControlPlanePrepareCertsPhaseLocal env NotJoinData =
     (Returns (Some (errors_New
        ''control-plane-prepare phase invoked with an invalid data struct'')), []) \<and>
   runControlPlanePrepareKubeconfigPhaseLocal env NotJoinData =
     (Returns (Some (errors_New
        ''control-plane-prepare phase invoked with an invalid data struct'')), []) \<and>
   runControlPlanePrepareManifestsSubphase env NotJoinData =
     (Returns (Some (errors_New
        ''control-plane-prepare phase invoked with an invalid data struct'')), [])"
  by (simp add: run_defs)

subsection \<open>The phase tree\<close>

text \<open>The subphases have no children, so the tree is the root and its five children.\<close>

lemma phase_nodes_NewControlPlanePreparePhase:
  "phase_nodes (NewControlPlanePreparePhase env) =
     NewControlPlanePreparePhase env # Phases (NewControlPlanePreparePhase env)"
  by (simp add: NewControlPlanePreparePhase_def subphase_defs)

text \<open>
  Claim C7. In the tree built by \<^verbatim>\<open>NewControlPlanePreparePhase\<close> the root has no run
  function, and every phase with \<^verbatim>\<open>RunAllSiblings\<close> set (there is exactly one, the phase
  \<^verbatim>\<open>all\<close>) has no run function.
\<close>

theorem aggregators_have_no_run_function:
  "Run (NewControlPlanePreparePhase env) = None \<and>
   map Name (filter RunAllSiblings (phase_nodes (NewControlPlanePreparePhase env))) = [''all''] \<and>
   (\<forall>p \<in> set (phase_nodes (NewControlPlanePreparePhase env)).
      RunAllSiblings p \<longrightarrow> Run p = None)"
  unfolding phase_nodes_NewControlPlanePreparePhase
  by (simp add: NewControlPlanePreparePhase_def subphase_defs)

text \<open>The theorem at the phase \<^verbatim>\<open>all\<close>, the first child of the root.\<close>

theorem aggregators_have_no_run_function_witness:
  "hd (Phases (NewControlPlanePreparePhase example_deps :: (unit, unit, unit, unit) Phase))
     \<in> set (phase_nodes (NewControlPlanePreparePhase example_deps)) \<and>
   Name (hd (Phases (NewControlPlanePreparePhase example_deps :: (unit, unit, unit, unit) Phase))) = ''all'' \<and>
   RunAllSiblings (hd (Phases (NewControlPlanePreparePhase example_deps :: (unit, unit, unit, unit) Phase))) \<and>
   Run (hd (Phases (NewControlPlanePreparePhase example_deps :: (unit, unit, unit, unit) Phase))) = None"
proof -
  let ?all = "hd (Phases (NewControlPlanePreparePhase example_deps :: (unit, unit, unit, unit) Phase))"
  have m: "?all \<in> set (phase_nodes (NewControlPlanePreparePhase example_deps))"
    unfolding phase_nodes_NewControlPlanePreparePhase
    by (simp add: NewControlPlanePreparePhase_def)
  have r: "RunAllSiblings ?all" and n: "Name ?all = ''all''"
    by (simp_all add: NewControlPlanePreparePhase_def)
  from aggregators_have_no_run_function [of example_deps] m r
  have "Run ?all = None" by blast
  with m r n show ?thesis by simp
qed

text \<open>
  Claim C8. In the tree built by \<^verbatim>\<open>NewControlPlanePreparePhase\<close> the names of the
  children of every phase are pairwise distinct; the five children of the root are \<^verbatim>\<open>all\<close>,
  \<^verbatim>\<open>download-certs\<close>, \<^verbatim>\<open>certs\<close>, \<^verbatim>\<open>kubeconfig\<close> and \<^verbatim>\<open>manifests\<close>.
\<close>

theorem sibling_names_unique:
  "map Name (Phases (NewControlPlanePreparePhase env)) =
     [''all'', ''download-certs'', ''certs'', ''kubeconfig'', ''manifests''] \<and>
   distinct (map Name (Phases (NewControlPlanePreparePhase env))) \<and>
   (\<forall>p \<in> set (phase_nodes (NewControlPlanePreparePhase env)). distinct (map Name (Phases p)))"
  unfolding phase_nodes_NewControlPlanePreparePhase
  by (simp add: NewControlPlanePreparePhase_def subphase_defs)

text \<open>The theorem at the root of the tree.\<close>

theorem sibling_names_unique_witness:
  "(NewControlPlanePreparePhase example_deps :: (unit, unit, unit, unit) Phase)
     \<in> set (phase_nodes (NewControlPlanePreparePhase example_deps)) \<and>
   distinct (map Name (Phases (NewControlPlanePreparePhase example_deps :: (unit, unit, unit, unit) Phase)))"
proof -
  have m: "(NewControlPlanePreparePhase example_deps :: (unit, unit, unit, unit) Phase)
     \<in> set (phase_nodes (NewControlPlanePreparePhase example_deps))"
    unfolding phase_nodes_NewControlPlanePreparePhase by simp
  with sibling_names_unique [of example_deps] show ?thesis by blast
qed

text \<open>
  Claim C9. When the run context is a \<^verbatim>\<open>JoinData\<close> whose \<^verbatim>\<open>Cfg().ControlPlane\<close> is not
  \<^verbatim>\<open>nil\<close> and whose \<^verbatim>\<open>CertificateKey()\<close> is the empty string, the run function of
  download-certs returns \<^verbatim>\<open>nil\<close> without loading the init configuration, building a
  bootstrap client or calling \<^verbatim>\<open>DownloadCerts\<close>: it reads the join configuration and the
  key and logs that it skips.
\<close>

theorem download_certs_skipped_without_key:
  assumes "Cfg data = Some jcfg" and "ControlPlane jcfg \<noteq> None" and "CertificateKey data = []"
  shows "runControlPlanePrepareDownloadCertsPhaseLocal env (IsJoinData data) =
      (Returns None,
       [Cfg_call, CertificateKey_call,
        klog_V1_Infoln ''[download-certs] Skipping certs download'']) \<and>
    filter collaborator
      (snd (runControlPlanePrepareDownloadCertsPhaseLocal env (IsJoinData data))) = []"
  using assms by (simp add: run_defs)

text \<open>The theorem at the join of a control-plane node that has no certificate key.\<close>

theorem download_certs_skipped_without_key_witness:
  "Cfg control_plane_join_without_key = Some \<lparr>ControlPlane = Some ()\<rparr> \<and>
   ControlPlane \<lparr>ControlPlane = Some ()\<rparr> \<noteq> None \<and>
   CertificateKey control_plane_join_without_key = [] \<and>
   runControlPlanePrepareDownloadCertsPhaseLocal example_deps
       (IsJoinData control_plane_join_without_key) =
     (Returns None,
      [Cfg_call, CertificateKey_call,
       klog_V1_Infoln ''[download-certs] Skipping certs download''])"
proof -
  have c: "Cfg control_plane_join_without_key = Some \<lparr>ControlPlane = Some ()\<rparr>"
    and k: "CertificateKey control_plane_join_without_key = []"
    by (simp_all add: control_plane_join_without_key_def)
  have n: "ControlPlane \<lparr>ControlPlane = Some ()\<rparr> \<noteq> None"
    by simp
  from download_certs_skipped_without_key [OF c n k, of example_deps] c n k
  show ?thesis by simp
qed

text \<open>
  Claim C10. The flags declared by the download-certs subphase are \<^verbatim>\<open>CfgPath\<close> and
  \<^verbatim>\<open>CertificateKey\<close>; both are among the flags returned by
  \<^verbatim>\<open>getControlPlanePreparePhaseFlags\<close>, and they are a strict subset of them when the nine
  flag names are pairwise different. The phase \<^verbatim>\<open>all\<close> and the subphases certs, kubeconfig
  and manifests declare exactly the flags of \<^verbatim>\<open>getControlPlanePreparePhaseFlags\<close>, so every
  flag that a subphase declares is declared by \<^verbatim>\<open>all\<close>.
\<close>

theorem download_certs_flags_within_aggregator_flags:
  "InheritFlags (newControlPlanePrepareDownloadCertsSubphase env) =
     [options_CfgPath env, options_CertificateKey env] \<and>
   set (InheritFlags (newControlPlanePrepareDownloadCertsSubphase env))
     \<subseteq> set (getControlPlanePreparePhaseFlags env) \<and>
   (distinct (getControlPlanePreparePhaseFlags env) \<longrightarrow>
      set (InheritFlags (newControlPlanePrepareDownloadCertsSubphase env))
        \<subset> set (getControlPlanePreparePhaseFlags env)) \<and>
   map (\<lambda>p. (Name p, InheritFlags p)) (Phases (NewControlPlanePreparePhase env)) =
     [(''all'', getControlPlanePreparePhaseFlags env),
      (''download-certs'', [options_CfgPath env, options_CertificateKey env]),
      (''certs'', getControlPlanePreparePhaseFlags env),
      (''kubeconfig'', getControlPlanePreparePhaseFlags env),
      (''manifests'', getControlPlanePreparePhaseFlags env)] \<and>
   (\<forall>p \<in> set (Phases (NewControlPlanePreparePhase env)).
      set (InheritFlags p) \<subseteq> set (getControlPlanePreparePhaseFlags env))"
proof (intro conjI impI)
  show "InheritFlags (newControlPlanePrepareDownloadCertsSubphase env) =
     [options_CfgPath env, options_CertificateKey env]"
    by (simp add: subphase_defs)
  show "set (InheritFlags (newControlPlanePrepareDownloadCertsSubphase env))
     \<subseteq> set (getControlPlanePreparePhaseFlags env)"
    by (simp add: subphase_defs getControlPlanePreparePhaseFlags_def)
  show "set (InheritFlags (newControlPlanePrepareDownloadCertsSubphase env))
        \<subset> set (getControlPlanePreparePhaseFlags env)"
    if "distinct (getControlPlanePreparePhaseFlags env)"
  proof -
    from that have "options_NodeName env \<noteq> options_CfgPath env"
      and "options_NodeName env \<noteq> options_CertificateKey env"
      by (auto simp add: getControlPlanePreparePhaseFlags_def)
    then have "options_NodeName env \<notin> set (InheritFlags (newControlPlanePrepareDownloadCertsSubphase env))"
      by (simp add: subphase_defs)
    moreover have "options_NodeName env \<in> set (getControlPlanePreparePhaseFlags env)"
      by (simp add: getControlPlanePreparePhaseFlags_def)
    moreover have "set (InheritFlags (newControlPlanePrepareDownloadCertsSubphase env))
       \<subseteq> set (getControlPlanePreparePhaseFlags env)"
      by (simp add: subphase_defs getControlPlanePreparePhaseFlags_def)
    ultimately show ?thesis by blast
  qed
  show "map (\<lambda>p. (Name p, InheritFlags p)) (Phases (NewControlPlanePreparePhase env)) =
     [(''all'', getControlPlanePreparePhaseFlags env),
      (''download-certs'', [options_CfgPath env, options_CertificateKey env]),
      (''certs'', getControlPlanePreparePhaseFlags env),
      (''kubeconfig'', getControlPlanePreparePhaseFlags env),
      (''manifests'', getControlPlanePreparePhaseFlags env)]"
    by (simp add: NewControlPlanePreparePhase_def subphase_defs)
  show "\<forall>p \<in> set (Phases (NewControlPlanePreparePhase env)).
      set (InheritFlags p) \<subseteq> set (getControlPlanePreparePhaseFlags env)"
    by (simp add: NewControlPlanePreparePhase_def subphase_defs)
      (simp add: getControlPlanePreparePhaseFlags_def)
qed

text \<open>The theorem at the example environment, whose flag names are pairwise different.\<close>

theorem download_certs_flags_within_aggregator_flags_witness:
  "distinct (getControlPlanePreparePhaseFlags example_deps) \<and>
   set (InheritFlags (newControlPlanePrepareDownloadCertsSubphase example_deps
          :: (unit, unit, unit, unit) Phase))
     \<subset> set (getControlPlanePreparePhaseFlags example_deps) \<and>
   newControlPlanePrepareCertsSubphase example_deps
     \<in> set (Phases (NewControlPlanePreparePhase example_deps :: (unit, unit, unit, unit) Phase)) \<and>
   set (InheritFlags (newControlPlanePrepareCertsSubphase example_deps
          :: (unit, unit, unit, unit) Phase))
     \<subseteq> set (getControlPlanePreparePhaseFlags example_deps)"
proof -
  have d: "distinct (getControlPlanePreparePhaseFlags example_deps)"
    by (simp add: getControlPlanePreparePhaseFlags_def example_deps_def)
  have m: "newControlPlanePrepareCertsSubphase example_deps
     \<in> set (Phases (NewControlPlanePreparePhase example_deps :: (unit, unit, unit, unit) Phase))"
    by (simp add: NewControlPlanePreparePhase_def)
  from download_certs_flags_within_aggregator_flags
    [where env = example_deps and 'a = unit] d m
  show ?thesis by blast
qed

text \<open>
  With a certificate key the same join does reach the collaborators, in this order.
\<close>

lemma download_certs_runs_with_key:
  "runControlPlanePrepareDownloadCertsPhaseLocal example_deps
     (IsJoinData (control_plane_join_without_key\<lparr>CertificateKey := ''k''\<rparr>)) =
   (Returns None,
    [Cfg_call, CertificateKey_call, InitCfg_call, TLSBootstrapCfg_call, ToClientSet_call (),
     CertificateKey_call, DownloadCerts_call () () ''k''])"
  by (simp add: run_defs bootstrapClient_def control_plane_join_without_key_def example_deps_def)

end
